theory Spec2Isabelle
  imports Complex_Main "HOL-Library.Word"
begin

unbundle bit_operations_syntax

section \<open>Byte strings and the library calls of the sensor module\<close>

text \<open>
  A Python \<open>bytes\<close> object is a list of 8-bit words; iterating over it or indexing it
  yields the integers \<open>0..255\<close> (\<open>uint\<close>). Python integers are unbounded and are
  modelled by \<open>int\<close>. Every exception the code can meet is a value of \<open>error\<close>, and a
  call that may raise returns \<open>error + 'a\<close> with \<open>Inl\<close> for the exception.
\<close>

type_synonym byte = "8 word"
type_synonym bytes = "byte list"

datatype error = ValueError | StructError | IndexError | SerialException | OtherException

text \<open>\<open>bytes([a, b, ...])\<close>: raises \<open>ValueError\<close> unless every item is in \<open>range(256)\<close>.\<close>

definition bytes_of :: "int list \<Rightarrow> error + bytes" where
  "bytes_of xs =
     (if list_all (\<lambda>x. 0 \<le> x \<and> x < 256) xs then Inr (map word_of_int xs)
      else Inl ValueError)"

text \<open>\<open>struct.pack('>H', x)\<close>: two bytes, high byte first; \<open>struct.error\<close> outside
  \<open>0..65535\<close>.\<close>

definition pack_H :: "int \<Rightarrow> error + bytes" where
  "pack_H x =
     (if 0 \<le> x \<and> x \<le> 65535 then Inr [word_of_int (x div 256), word_of_int (x mod 256)]
      else Inl StructError)"

text \<open>\<open>struct.unpack('>H', b)[0]\<close>: \<open>struct.error\<close> unless \<open>b\<close> has exactly two bytes.\<close>

fun unpack_H :: "bytes \<Rightarrow> error + int" where
  "unpack_H [hi, lo] = Inr (uint hi * 256 + uint lo)"
| "unpack_H _ = Inl StructError"

text \<open>\<open>b[i]\<close> for \<open>0 \<le> i\<close>: the byte as an integer, \<open>IndexError\<close> past the end.\<close>

definition getitem :: "bytes \<Rightarrow> nat \<Rightarrow> error + int" where
  "getitem b i = (if i < length b then Inr (uint (b ! i)) else Inl IndexError)"

text \<open>The slice \<open>b[i:j]\<close> for \<open>0 \<le> i \<le> j\<close>; Python clips it to the end of \<open>b\<close>.\<close>

definition bytes_slice :: "bytes \<Rightarrow> nat \<Rightarrow> nat \<Rightarrow> bytes" where
  "bytes_slice b i j = take (j - i) (drop i b)"

section \<open>Frame codec (sensor.py)\<close>

subsection \<open>Pre-built command constants\<close>

definition CMD_READ_N :: bytes where
  "CMD_READ_N = [0x01, 0x03, 0x00, 0x1E, 0x00, 0x01, 0xE4, 0x0C]"

definition CMD_READ_P :: bytes where
  "CMD_READ_P = [0x01, 0x03, 0x00, 0x1F, 0x00, 0x01, 0xB5, 0xCC]"

definition CMD_READ_K :: bytes where
  "CMD_READ_K = [0x01, 0x03, 0x00, 0x20, 0x00, 0x01, 0x85, 0xC0]"

definition CMD_READ_NPK :: bytes where
  "CMD_READ_NPK = [0x01, 0x03, 0x00, 0x1E, 0x00, 0x03, 0x65, 0xCD]"

definition CMD_READ_EC_PH :: bytes where
  "CMD_READ_EC_PH = [0x01, 0x03, 0x00, 0x00, 0x00, 0x04, 0x44, 0x09]"

definition CMD_READ_EC :: bytes where
  "CMD_READ_EC = [0x01, 0x03, 0x00, 0x02, 0x00, 0x01, 0x25, 0xCA]"

definition CMD_READ_PH :: bytes where
  "CMD_READ_PH = [0x01, 0x03, 0x00, 0x03, 0x00, 0x01, 0x74, 0x0A]"

subsection \<open>calculate_crc16\<close>

text \<open>
  The body of the inner loop \<open>for _ in range(8)\<close>: one shift of the accumulator, with
  the polynomial \<open>0xA001\<close> folded in when the low bit was set.
\<close>

definition crc_shift :: "int \<Rightarrow> int" where
  "crc_shift crc =
     (if crc AND 0x0001 \<noteq> 0 then drop_bit 1 crc XOR 0xA001 else drop_bit 1 crc)"

primrec crc_shifts :: "nat \<Rightarrow> int \<Rightarrow> int" where
  "crc_shifts 0 crc = crc"
| "crc_shifts (Suc n) crc = crc_shifts n (crc_shift crc)"

text \<open>The body of the outer loop \<open>for byte in data\<close>.\<close>

definition crc_byte :: "int \<Rightarrow> byte \<Rightarrow> int" where
  "crc_byte crc b = crc_shifts 8 (crc XOR uint b)"

definition crc_value :: "bytes \<Rightarrow> int" where
  "crc_value data = foldl crc_byte 0xFFFF data"

definition calculate_crc16 :: "bytes \<Rightarrow> error + bytes" where
  "calculate_crc16 data =
     (let crc = crc_value data in bytes_of [crc AND 0xFF, drop_bit 8 crc])"

subsection \<open>create_command\<close>

definition create_command :: "int \<Rightarrow> int \<Rightarrow> int \<Rightarrow> int \<Rightarrow> error + bytes" where
  "create_command device_id function_code register_address register_count =
     (case bytes_of [device_id, function_code] of
        Inl e \<Rightarrow> Inl e
      | Inr hd2 \<Rightarrow>
          (case pack_H register_address of
             Inl e \<Rightarrow> Inl e
           | Inr addr \<Rightarrow>
               (case pack_H register_count of
                  Inl e \<Rightarrow> Inl e
                | Inr cnt \<Rightarrow>
                    (let cmd = hd2 @ addr @ cnt in
                     case calculate_crc16 cmd of
                       Inl e \<Rightarrow> Inl e
                     | Inr crc \<Rightarrow> Inr (cmd @ crc)))))"

subsection \<open>The collaborator of the read operations\<close>

text \<open>
  The sensor reaches the bus only through \<open>self.comm.send_and_receive(command, size)\<close>.
  One such call either raises (\<open>Inl\<close>), returns \<open>None\<close> (\<open>Inr None\<close>) or returns a
  byte string (\<open>Inr (Some r)\<close>); the unit tests replace the object by a mock with a
  fixed return value, so the read operations are modelled over any such behaviour.
\<close>

type_synonym exchange = "bytes \<Rightarrow> nat \<Rightarrow> error + bytes option"

text \<open>
  The guard shared by all read operations, for a response that is not \<open>None\<close>:
  \<open>response and len(response) >= n and response[0] == self.device_id and
  response[1] == 0x03\<close>, evaluated left to right with Python's short-circuit \<open>and\<close>.
\<close>

definition response_ok :: "int \<Rightarrow> nat \<Rightarrow> bytes \<Rightarrow> error + bool" where
  "response_ok device_id n response =
     (if response = [] then Inr False
      else if \<not> n \<le> length response then Inr False
      else (case getitem response 0 of
              Inl e \<Rightarrow> Inl e
            | Inr b0 \<Rightarrow>
                if b0 \<noteq> device_id then Inr False
                else (case getitem response 1 of
                        Inl e \<Rightarrow> Inl e
                      | Inr b1 \<Rightarrow> Inr (b1 = 0x03))))"

subsection \<open>Single-register reads\<close>

text \<open>
  Each method is \<open>try: ... except Exception: return None\<close>: every \<open>Inl\<close> met on the
  way becomes \<open>None\<close>.
\<close>

definition read_nitrogen :: "int \<Rightarrow> exchange \<Rightarrow> int option" where
  "read_nitrogen device_id comm =
     (case comm CMD_READ_N 7 of
        Inl e \<Rightarrow> None
      | Inr None \<Rightarrow> None
      | Inr (Some response) \<Rightarrow>
          (case response_ok device_id 7 response of
             Inl e \<Rightarrow> None
           | Inr ok \<Rightarrow>
               if ok then
                 (case unpack_H (bytes_slice response 3 5) of
                    Inl e \<Rightarrow> None
                  | Inr nitrogen \<Rightarrow> Some nitrogen)
               else None))"

definition read_phosphorus :: "int \<Rightarrow> exchange \<Rightarrow> int option" where
  "read_phosphorus device_id comm =
     (case comm CMD_READ_P 7 of
        Inl e \<Rightarrow> None
      | Inr None \<Rightarrow> None
      | Inr (Some response) \<Rightarrow>
          (case response_ok device_id 7 response of
             Inl e \<Rightarrow> None
           | Inr ok \<Rightarrow>
               if ok then
                 (case unpack_H (bytes_slice response 3 5) of
                    Inl e \<Rightarrow> None
                  | Inr phosphorus \<Rightarrow> Some phosphorus)
               else None))"

definition read_potassium :: "int \<Rightarrow> exchange \<Rightarrow> int option" where
  "read_potassium device_id comm =
     (case comm CMD_READ_K 7 of
        Inl e \<Rightarrow> None
      | Inr None \<Rightarrow> None
      | Inr (Some response) \<Rightarrow>
          (case response_ok device_id 7 response of
             Inl e \<Rightarrow> None
           | Inr ok \<Rightarrow>
               if ok then
                 (case unpack_H (bytes_slice response 3 5) of
                    Inl e \<Rightarrow> None
                  | Inr potassium \<Rightarrow> Some potassium)
               else None))"

definition read_ec :: "int \<Rightarrow> exchange \<Rightarrow> int option" where
  "read_ec device_id comm =
     (case comm CMD_READ_EC 7 of
        Inl e \<Rightarrow> None
      | Inr None \<Rightarrow> None
      | Inr (Some response) \<Rightarrow>
          (case response_ok device_id 7 response of
             Inl e \<Rightarrow> None
           | Inr ok \<Rightarrow>
               if ok then
                 (case unpack_H (bytes_slice response 3 5) of
                    Inl e \<Rightarrow> None
                  | Inr ec \<Rightarrow> Some ec)
               else None))"

text \<open>
  \<open>ph = ph_raw / 10.0\<close> is Python's float division. The model returns the exact
  quotient as a rational; the float the program returns is the double nearest to it.
\<close>

definition read_ph :: "int \<Rightarrow> exchange \<Rightarrow> rat option" where
  "read_ph device_id comm =
     (case comm CMD_READ_PH 7 of
        Inl e \<Rightarrow> None
      | Inr None \<Rightarrow> None
      | Inr (Some response) \<Rightarrow>
          (case response_ok device_id 7 response of
             Inl e \<Rightarrow> None
           | Inr ok \<Rightarrow>
               if ok then
                 (case unpack_H (bytes_slice response 3 5) of
                    Inl e \<Rightarrow> None
                  | Inr ph_raw \<Rightarrow> Some (of_int ph_raw / 10))
               else None))"

subsection \<open>Grouped reads\<close>

text \<open>
  The grouped reads return a dictionary from field name to value, where a value is
  \<open>None\<close>, an integer or a float.
\<close>

datatype pyval = PyNone | PyInt int | PyFloat rat

type_synonym dict = "string \<rightharpoonup> pyval"

definition read_ec_ph :: "int \<Rightarrow> exchange \<Rightarrow> dict" where
  "read_ec_ph device_id comm =
     (case comm CMD_READ_EC_PH 13 of
        Inl e \<Rightarrow> [''ec'' \<mapsto> PyNone, ''ph'' \<mapsto> PyNone]
      | Inr response_opt \<Rightarrow>
          (let result = [''ec'' \<mapsto> PyNone, ''ph'' \<mapsto> PyNone] in
           case response_opt of
             None \<Rightarrow> result
           | Some response \<Rightarrow>
               (case response_ok device_id 13 response of
                  Inl e \<Rightarrow> [''ec'' \<mapsto> PyNone, ''ph'' \<mapsto> PyNone]
                | Inr ok \<Rightarrow>
                    if ok then
                      (case unpack_H (bytes_slice response 7 9) of
                         Inl e \<Rightarrow> [''ec'' \<mapsto> PyNone, ''ph'' \<mapsto> PyNone]
                       | Inr ec \<Rightarrow>
                           (case unpack_H (bytes_slice response 9 11) of
                              Inl e \<Rightarrow> [''ec'' \<mapsto> PyNone, ''ph'' \<mapsto> PyNone]
                            | Inr ph_raw \<Rightarrow>
                                (let ph = of_int ph_raw / 10 in
                                 result(''ec'' \<mapsto> PyInt ec, ''ph'' \<mapsto> PyFloat ph))))
                    else result)))"

definition read_npk :: "int \<Rightarrow> exchange \<Rightarrow> dict" where
  "read_npk device_id comm =
     (case comm CMD_READ_NPK 11 of
        Inl e \<Rightarrow> [''nitrogen'' \<mapsto> PyNone, ''phosphorus'' \<mapsto> PyNone, ''potassium'' \<mapsto> PyNone]
      | Inr response_opt \<Rightarrow>
          (let result =
                 [''nitrogen'' \<mapsto> PyNone, ''phosphorus'' \<mapsto> PyNone, ''potassium'' \<mapsto> PyNone] in
           case response_opt of
             None \<Rightarrow> result
           | Some response \<Rightarrow>
               (case response_ok device_id 11 response of
                  Inl e \<Rightarrow>
                    [''nitrogen'' \<mapsto> PyNone, ''phosphorus'' \<mapsto> PyNone, ''potassium'' \<mapsto> PyNone]
                | Inr ok \<Rightarrow>
                    if ok then
                      (case unpack_H (bytes_slice response 3 5) of
                         Inl e \<Rightarrow>
                           [''nitrogen'' \<mapsto> PyNone, ''phosphorus'' \<mapsto> PyNone,
                            ''potassium'' \<mapsto> PyNone]
                       | Inr nitrogen \<Rightarrow>
                           (case unpack_H (bytes_slice response 5 7) of
                              Inl e \<Rightarrow>
                                [''nitrogen'' \<mapsto> PyNone, ''phosphorus'' \<mapsto> PyNone,
                                 ''potassium'' \<mapsto> PyNone]
                            | Inr phosphorus \<Rightarrow>
                                (case unpack_H (bytes_slice response 7 9) of
                                   Inl e \<Rightarrow>
                                     [''nitrogen'' \<mapsto> PyNone, ''phosphorus'' \<mapsto> PyNone,
                                      ''potassium'' \<mapsto> PyNone]
                                 | Inr potassium \<Rightarrow>
                                     result(''nitrogen'' \<mapsto> PyInt nitrogen,
                                            ''phosphorus'' \<mapsto> PyInt phosphorus,
                                            ''potassium'' \<mapsto> PyInt potassium))))
                    else result)))"

section \<open>Transport session (rs485.py)\<close>

subsection \<open>The serial port library\<close>

text \<open>
  The session talks to a pyserial \<open>Serial\<close> object. Of that object the code reads and
  writes two attributes: \<open>is_open\<close> and \<open>timeout\<close> (here \<open>read_timeout\<close>). Timeouts
  are seconds given as Python floats; the code only stores and copies them, and they
  are carried as rationals.
\<close>

record serial =
  is_open :: bool
  read_timeout :: rat

text \<open>
  What the machine offers when a port is looked for or opened: whether
  \<open>import serial\<close> succeeds, what \<open>serial.tools.list_ports.comports()\<close> lists (the
  device names, or an exception), what \<open>serial.Serial(...)\<close> does (an exception, or an
  object whose \<open>is_open\<close> flag is given), and \<open>platform.system()\<close>.
\<close>

record host =
  has_pyserial :: bool
  comports :: "error + string list"
  serial_open :: "error + bool"
  platform_system :: string

text \<open>
  What the bus does during one exchange: whether \<open>write\<close> or a read raises, the bytes
  that reach the port before the read timeout elapses (\<open>arrived\<close>), and for the
  unsized read the bytes \<open>read_all()\<close> finds at once (\<open>buffered\<close>) and at the second
  attempt 0.1 s later (\<open>buffered_later\<close>).
\<close>

record line =
  write_error :: "error option"
  read_error :: "error option"
  arrived :: bytes
  buffered :: bytes
  buffered_later :: bytes

text \<open>\<open>Serial.write\<close>, \<open>Serial.read(size)\<close> and \<open>Serial.read_all()\<close>: each raises on a
  closed port; \<open>read(size)\<close> returns at most \<open>size\<close> bytes, fewer when the timeout
  elapses first.\<close>

definition serial_write :: "serial \<Rightarrow> line \<Rightarrow> bytes \<Rightarrow> error + unit" where
  "serial_write s l command =
     (if \<not> is_open s then Inl SerialException
      else (case write_error l of Some e \<Rightarrow> Inl e | None \<Rightarrow> Inr ()))"

definition serial_read :: "serial \<Rightarrow> line \<Rightarrow> nat \<Rightarrow> error + bytes" where
  "serial_read s l n =
     (if \<not> is_open s then Inl SerialException
      else (case read_error l of Some e \<Rightarrow> Inl e | None \<Rightarrow> Inr (take n (arrived l))))"

definition serial_read_all :: "serial \<Rightarrow> line \<Rightarrow> bytes \<Rightarrow> error + bytes" where
  "serial_read_all s l available =
     (if \<not> is_open s then Inl SerialException
      else (case read_error l of Some e \<Rightarrow> Inl e | None \<Rightarrow> Inr available))"

subsection \<open>RS485Communication\<close>

record rs485 =
  port :: "string option"
  baudrate :: int
  timeout :: rat
  serial_conn :: "serial option"
  system :: string
  is_connected :: bool

text \<open>\<open>sub in s\<close> on strings.\<close>

fun contains :: "string \<Rightarrow> string \<Rightarrow> bool" where
  "contains sub [] = (sub = [])"
| "contains sub (c # cs) = (take (length sub) (c # cs) = sub \<or> contains sub cs)"

definition connect :: "host \<Rightarrow> rs485 \<Rightarrow> rs485 \<times> bool" where
  "connect h c =
     (case port c of
        None \<Rightarrow> (c, False)
      | Some p \<Rightarrow>
          if p = [] then (c, False)
          else if \<not> has_pyserial h then (c, False)
          else (case serial_open h of
                  Inl e \<Rightarrow> (c\<lparr>is_connected := False\<rparr>, False)
                | Inr opened \<Rightarrow>
                    (let c' = c\<lparr>serial_conn :=
                                  Some \<lparr>is_open = opened, read_timeout = timeout c\<rparr>\<rparr> in
                     if opened then (c'\<lparr>is_connected := True\<rparr>, True)
                     else (c'\<lparr>is_connected := False\<rparr>, False))))"

text \<open>The two \<open>for ... break\<close> loops of \<open>detect_port\<close> pick the first listed device
  whose name matches.\<close>

definition port_matches :: "string \<Rightarrow> string \<Rightarrow> bool" where
  "port_matches sys device =
     (if sys = ''Windows'' then contains ''COM'' device
      else contains ''ttyUSB'' device \<or> contains ''ttyAMA'' device \<or> contains ''ttyS'' device)"

definition detect_port :: "host \<Rightarrow> rs485 \<Rightarrow> rs485" where
  "detect_port h c =
     (if \<not> has_pyserial h then c
      else (case comports h of
              Inl e \<Rightarrow> c
            | Inr available_ports \<Rightarrow>
                if available_ports = [] then c
                else (let c' = (case find (port_matches (system c)) available_ports of
                                  Some device \<Rightarrow> c\<lparr>port := Some device\<rparr>
                                | None \<Rightarrow> c) in
                      case port c' of
                        None \<Rightarrow> c'
                      | Some p \<Rightarrow> if p = [] then c' else fst (connect h c'))))"

definition init :: "host \<Rightarrow> string option \<Rightarrow> int \<Rightarrow> rat \<Rightarrow> rs485" where
  "init h port_arg baudrate_arg timeout_arg =
     (let c = \<lparr>port = port_arg, baudrate = baudrate_arg, timeout = timeout_arg,
               serial_conn = None, system = platform_system h, is_connected = False\<rparr> in
      case port_arg of
        None \<Rightarrow> detect_port h c
      | Some p \<Rightarrow> fst (connect h c))"

definition disconnect :: "rs485 \<Rightarrow> rs485" where
  "disconnect c =
     (case serial_conn c of
        None \<Rightarrow> c
      | Some s \<Rightarrow>
          if is_open s then c\<lparr>serial_conn := Some (s\<lparr>is_open := False\<rparr>), is_connected := False\<rparr>
          else c)"

definition send_command :: "rs485 \<Rightarrow> line \<Rightarrow> bytes \<Rightarrow> bool" where
  "send_command c l command =
     (if \<not> is_connected c then False
      else (case serial_conn c of
              None \<Rightarrow> False
            | Some s \<Rightarrow> (case serial_write s l command of Inl e \<Rightarrow> False | Inr u \<Rightarrow> True)))"

text \<open>
  \<open>read_response\<close> returns the session (its port may carry a changed timeout when the
  read raised before the restore) and the result: \<open>None\<close> on an error, otherwise the
  bytes that were read, whatever their number.
\<close>

definition read_response :: "rs485 \<Rightarrow> line \<Rightarrow> nat option \<Rightarrow> rat option \<Rightarrow> rs485 \<times> bytes option" where
  "read_response c l size_arg timeout_arg =
     (if \<not> is_connected c then (c, None)
      else (case serial_conn c of
              None \<Rightarrow> (c, None)
            | Some s \<Rightarrow>
                (let original_timeout =
                       (case timeout_arg of None \<Rightarrow> None | Some t \<Rightarrow> Some (read_timeout s));
                     s1 = (case timeout_arg of None \<Rightarrow> s | Some t \<Rightarrow> s\<lparr>read_timeout := t\<rparr>);
                     got = (case size_arg of
                              Some n \<Rightarrow> serial_read s1 l n
                            | None \<Rightarrow>
                                (case serial_read_all s1 l (buffered l) of
                                   Inl e \<Rightarrow> Inl e
                                 | Inr response \<Rightarrow>
                                     if response = [] then serial_read_all s1 l (buffered_later l)
                                     else Inr response))
                 in case got of
                      Inl e \<Rightarrow> (c\<lparr>serial_conn := Some s1\<rparr>, None)
                    | Inr response \<Rightarrow>
                        (let s2 = (case original_timeout of
                                     None \<Rightarrow> s1
                                   | Some t0 \<Rightarrow> s1\<lparr>read_timeout := t0\<rparr>)
                         in (c\<lparr>serial_conn := Some s2\<rparr>, Some response)))))"

definition send_and_receive ::
  "rs485 \<Rightarrow> line \<Rightarrow> bytes \<Rightarrow> nat option \<Rightarrow> rat option \<Rightarrow> rs485 \<times> bytes option" where
  "send_and_receive c l command response_size timeout_arg =
     (if send_command c l command then read_response c l response_size timeout_arg
      else (c, None))"

text \<open>A session in use: constructed, then any sequence of method calls.\<close>

datatype call =
    Connect host
  | DetectPort host
  | Disconnect
  | SendCommand line bytes
  | ReadResponse line "nat option" "rat option"
  | SendAndReceive line bytes "nat option" "rat option"

fun perform :: "rs485 \<Rightarrow> call \<Rightarrow> rs485" where
  "perform c (Connect h) = fst (connect h c)"
| "perform c (DetectPort h) = detect_port h c"
| "perform c Disconnect = disconnect c"
| "perform c (SendCommand l command) = c"
| "perform c (ReadResponse l n t) = fst (read_response c l n t)"
| "perform c (SendAndReceive l command n t) = fst (send_and_receive c l command n t)"

definition session :: "host \<Rightarrow> string option \<Rightarrow> int \<Rightarrow> rat \<Rightarrow> call list \<Rightarrow> rs485" where
  "session h port_arg baudrate_arg timeout_arg calls =
     foldl perform (init h port_arg baudrate_arg timeout_arg) calls"

text \<open>The sensor's collaborator when it is a real session on a given line: the sensor
  passes a size and no per-call timeout, and uses only the returned bytes.\<close>

definition on_line :: "rs485 \<Rightarrow> line \<Rightarrow> exchange" where
  "on_line c l = (\<lambda>command n. Inr (snd (send_and_receive c l command (Some n) None)))"

subsection \<open>TaidacentSoilSensor: construction and close\<close>

record sensor =
  device_id :: int
  comm :: rs485

definition sensor_init :: "host \<Rightarrow> string option \<Rightarrow> int \<Rightarrow> int \<Rightarrow> rat \<Rightarrow> sensor" where
  "sensor_init h port_arg baudrate_arg device_id_arg timeout_arg =
     \<lparr>device_id = device_id_arg, comm = init h port_arg baudrate_arg timeout_arg\<rparr>"

definition close :: "sensor \<Rightarrow> sensor" where
  "close s = s\<lparr>comm := disconnect (comm s)\<rparr>"

section \<open>Vocabulary of the properties\<close>

text \<open>
  The acceptance test the read operations apply to a response \<open>r\<close> for device \<open>dev\<close>
  and expected length \<open>n\<close>, stated on its own: long enough, first byte the device id,
  second byte the function code 3.
\<close>

definition accepted :: "int \<Rightarrow> nat \<Rightarrow> bytes \<Rightarrow> bool" where
  "accepted dev n r = (n \<le> length r \<and> uint (r ! 0) = dev \<and> r ! 1 = 0x03)"

text \<open>The big-endian unsigned 16-bit integer held by the two bytes at offset \<open>i\<close>.\<close>

definition uint16_be :: "bytes \<Rightarrow> nat \<Rightarrow> int" where
  "uint16_be b i = uint (b ! i) * 256 + uint (b ! (i + 1))"

text \<open>A frame whose trailing two bytes are the CRC-16 of all bytes before them.\<close>

definition crc_valid :: "bytes \<Rightarrow> bool" where
  "crc_valid r = (calculate_crc16 (take (length r - 2) r) = Inr (drop (length r - 2) r))"

text \<open>The session holds a port object and that object is open.\<close>

definition port_open :: "rs485 \<Rightarrow> bool" where
  "port_open c = (case serial_conn c of None \<Rightarrow> False | Some s \<Rightarrow> is_open s)"

text \<open>
  Collaborators with a fixed behaviour, as the mocks of the unit tests: one that
  answers every request with the bytes \<open>r\<close>, one that raises, one that returns \<open>None\<close>.
\<close>

definition replies :: "bytes \<Rightarrow> exchange" where
  "replies r = (\<lambda>command n. Inr (Some r))"



section \<open>Proofs: the frame codec\<close>

lemma crc_shifts_8:
  "crc_shifts 8 c =
     crc_shift (crc_shift (crc_shift (crc_shift (crc_shift (crc_shift (crc_shift (crc_shift c)))))))"
  by (simp add: eval_nat_numeral)

lemmas crc_eval = crc_value_def crc_byte_def crc_shift_def crc_shifts_8

lemma crc_value_N: "crc_value [0x01, 0x03, 0x00, 0x1E, 0x00, 0x01] = 0x0CE4"
  by (simp add: crc_eval)

lemma crc_value_P: "crc_value [0x01, 0x03, 0x00, 0x1F, 0x00, 0x01] = 0xCCB5"
  by (simp add: crc_eval)

lemma crc_value_K: "crc_value [0x01, 0x03, 0x00, 0x20, 0x00, 0x01] = 0xC085"
  by (simp add: crc_eval)

lemma crc_value_NPK: "crc_value [0x01, 0x03, 0x00, 0x1E, 0x00, 0x03] = 0xCD65"
  by (simp add: crc_eval)

lemma crc_value_EC: "crc_value [0x01, 0x03, 0x00, 0x02, 0x00, 0x01] = 0xCA25"
  by (simp add: crc_eval)

lemma crc_value_PH: "crc_value [0x01, 0x03, 0x00, 0x03, 0x00, 0x01] = 0x0A74"
  by (simp add: crc_eval)

lemma crc_value_EC_PH: "crc_value [0x01, 0x03, 0x00, 0x00, 0x00, 0x04] = 0x0944"
  by (simp add: crc_eval)

lemmas cmd_eval = create_command_def calculate_crc16_def bytes_of_def pack_H_def

text \<open>
  Claim C1. For every register of the address table, \<open>create_command\<close> with function
  code 3, the register's start address and count, at device id 1, returns exactly the
  pre-built command constant of that register; for Nitrogen these are the eight bytes
  \<open>01 03 00 1E 00 01 E4 0C\<close>.
\<close>

theorem create_command_reproduces_constants:
  "create_command 1 3 0x001E 1 = Inr CMD_READ_N \<and>
   create_command 1 3 0x001F 1 = Inr CMD_READ_P \<and>
   create_command 1 3 0x0020 1 = Inr CMD_READ_K \<and>
   create_command 1 3 0x001E 3 = Inr CMD_READ_NPK \<and>
   create_command 1 3 0x0002 1 = Inr CMD_READ_EC \<and>
   create_command 1 3 0x0003 1 = Inr CMD_READ_PH \<and>
   create_command 1 3 0x0000 4 = Inr CMD_READ_EC_PH \<and>
   create_command 1 3 0x001E 1 = Inr [0x01, 0x03, 0x00, 0x1E, 0x00, 0x01, 0xE4, 0x0C]"
proof -
  have n: "create_command 1 3 0x001E 1 = Inr CMD_READ_N"
    by (simp add: cmd_eval crc_value_N CMD_READ_N_def)
  have p: "create_command 1 3 0x001F 1 = Inr CMD_READ_P"
    by (simp add: cmd_eval crc_value_P CMD_READ_P_def)
  have k: "create_command 1 3 0x0020 1 = Inr CMD_READ_K"
    by (simp add: cmd_eval crc_value_K CMD_READ_K_def)
  have npk: "create_command 1 3 0x001E 3 = Inr CMD_READ_NPK"
    by (simp add: cmd_eval crc_value_NPK CMD_READ_NPK_def)
  have ec: "create_command 1 3 0x0002 1 = Inr CMD_READ_EC"
    by (simp add: cmd_eval crc_value_EC CMD_READ_EC_def)
  have ph: "create_command 1 3 0x0003 1 = Inr CMD_READ_PH"
    by (simp add: cmd_eval crc_value_PH CMD_READ_PH_def)
  have ecph: "create_command 1 3 0x0000 4 = Inr CMD_READ_EC_PH"
    by (simp add: cmd_eval crc_value_EC_PH CMD_READ_EC_PH_def)
  from n have bytes:
    "create_command 1 3 0x001E 1 = Inr [0x01, 0x03, 0x00, 0x1E, 0x00, 0x01, 0xE4, 0x0C]"
    by (simp add: CMD_READ_N_def)
  from n p k npk ec ph ecph bytes show ?thesis by blast
qed

text \<open>
  Claim C2, as stated: on \<open>01 03 00 1E 00 01\<close>, \<open>calculate_crc16\<close> returns the two bytes
  \<open>0C E4\<close> in emission order. The code does not: the value it computes is \<open>0x0CE4\<close>
  and it emits the low byte first.
\<close>

theorem crc16_nitrogen_request_not_0C_E4:
  "calculate_crc16 [0x01, 0x03, 0x00, 0x1E, 0x00, 0x01] \<noteq> Inr [0x0C, 0xE4]"
  by (simp add: calculate_crc16_def bytes_of_def crc_value_N)

text \<open>
  Claim C2, amended: on \<open>01 03 00 1E 00 01\<close> the CRC accumulator ends at \<open>0x0CE4\<close> and
  \<open>calculate_crc16\<close> returns the two bytes \<open>E4 0C\<close> in emission order (low byte first,
  high byte second), the last two bytes of \<open>CMD_READ_N\<close>.
\<close>

theorem crc16_nitrogen_request_is_E4_0C:
  "crc_value [0x01, 0x03, 0x00, 0x1E, 0x00, 0x01] = 0x0CE4 \<and>
   calculate_crc16 [0x01, 0x03, 0x00, 0x1E, 0x00, 0x01] = Inr [0xE4, 0x0C] \<and>
   drop 6 CMD_READ_N = [0xE4, 0x0C]"
  by (simp add: calculate_crc16_def bytes_of_def crc_value_N CMD_READ_N_def)

section \<open>Proofs: the read operations\<close>

lemma uint_eq_3: "(uint (b :: byte) = 3) = (b = 3)"
proof -
  have "uint (3 :: byte) = 3" by simp
  then show ?thesis by (metis word_uint_eq_iff)
qed

lemma response_ok_accepted: "2 \<le> n \<Longrightarrow> response_ok dev n r = Inr (accepted dev n r)"
  by (auto simp: response_ok_def accepted_def getitem_def uint_eq_3)

lemma unpack_slice:
  assumes "i + 2 \<le> length r"
  shows "unpack_H (bytes_slice r i (i + 2)) = Inr (uint16_be r i)"
proof -
  from assms have "take 2 (drop i r) = [r ! i, r ! (i + 1)]"
    by (simp add: take_Suc_conv_app_nth numeral_2_eq_2 take_Suc)
  then show ?thesis by (simp add: bytes_slice_def uint16_be_def)
qed

lemma unpack_3_5: "5 \<le> length r \<Longrightarrow> unpack_H (bytes_slice r 3 5) = Inr (uint16_be r 3)"
  using unpack_slice [of 3 r] by simp

lemma unpack_5_7: "7 \<le> length r \<Longrightarrow> unpack_H (bytes_slice r 5 7) = Inr (uint16_be r 5)"
  using unpack_slice [of 5 r] by simp

lemma unpack_7_9: "9 \<le> length r \<Longrightarrow> unpack_H (bytes_slice r 7 9) = Inr (uint16_be r 7)"
  using unpack_slice [of 7 r] by simp

lemma unpack_9_11: "11 \<le> length r \<Longrightarrow> unpack_H (bytes_slice r 9 11) = Inr (uint16_be r 9)"
  using unpack_slice [of 9 r] by simp

lemma accepted_length: "accepted dev n r \<Longrightarrow> n \<le> length r"
  by (simp add: accepted_def)

text \<open>Each read operation as a function of what the collaborator answers.\<close>

lemma read_nitrogen_eq:
  "read_nitrogen dev x =
     (case x CMD_READ_N 7 of
        Inr (Some r) \<Rightarrow> if accepted dev 7 r then Some (uint16_be r 3) else None
      | _ \<Rightarrow> None)"
  by (auto simp: read_nitrogen_def response_ok_accepted unpack_3_5 dest: accepted_length
           split: sum.splits option.splits)

lemma read_phosphorus_eq:
  "read_phosphorus dev x =
     (case x CMD_READ_P 7 of
        Inr (Some r) \<Rightarrow> if accepted dev 7 r then Some (uint16_be r 3) else None
      | _ \<Rightarrow> None)"
  by (auto simp: read_phosphorus_def response_ok_accepted unpack_3_5 dest: accepted_length
           split: sum.splits option.splits)

lemma read_potassium_eq:
  "read_potassium dev x =
     (case x CMD_READ_K 7 of
        Inr (Some r) \<Rightarrow> if accepted dev 7 r then Some (uint16_be r 3) else None
      | _ \<Rightarrow> None)"
  by (auto simp: read_potassium_def response_ok_accepted unpack_3_5 dest: accepted_length
           split: sum.splits option.splits)

lemma read_ec_eq:
  "read_ec dev x =
     (case x CMD_READ_EC 7 of
        Inr (Some r) \<Rightarrow> if accepted dev 7 r then Some (uint16_be r 3) else None
      | _ \<Rightarrow> None)"
  by (auto simp: read_ec_def response_ok_accepted unpack_3_5 dest: accepted_length
           split: sum.splits option.splits)

lemma read_ph_eq:
  "read_ph dev x =
     (case x CMD_READ_PH 7 of
        Inr (Some r) \<Rightarrow> if accepted dev 7 r then Some (of_int (uint16_be r 3) / 10) else None
      | _ \<Rightarrow> None)"
  by (auto simp: read_ph_def response_ok_accepted unpack_3_5 dest: accepted_length
           split: sum.splits option.splits)

lemma read_npk_eq:
  "read_npk dev x =
     (case x CMD_READ_NPK 11 of
        Inr (Some r) \<Rightarrow>
          if accepted dev 11 r then
            [''nitrogen'' \<mapsto> PyInt (uint16_be r 3), ''phosphorus'' \<mapsto> PyInt (uint16_be r 5),
             ''potassium'' \<mapsto> PyInt (uint16_be r 7)]
          else [''nitrogen'' \<mapsto> PyNone, ''phosphorus'' \<mapsto> PyNone, ''potassium'' \<mapsto> PyNone]
      | _ \<Rightarrow> [''nitrogen'' \<mapsto> PyNone, ''phosphorus'' \<mapsto> PyNone, ''potassium'' \<mapsto> PyNone])"
  by (auto simp: read_npk_def response_ok_accepted unpack_3_5 unpack_5_7 unpack_7_9
           dest: accepted_length split: sum.splits option.splits)

lemma read_ec_ph_eq:
  "read_ec_ph dev x =
     (case x CMD_READ_EC_PH 13 of
        Inr (Some r) \<Rightarrow>
          if accepted dev 13 r then
            [''ec'' \<mapsto> PyInt (uint16_be r 7), ''ph'' \<mapsto> PyFloat (of_int (uint16_be r 9) / 10)]
          else [''ec'' \<mapsto> PyNone, ''ph'' \<mapsto> PyNone]
      | _ \<Rightarrow> [''ec'' \<mapsto> PyNone, ''ph'' \<mapsto> PyNone])"
  by (auto simp: read_ec_ph_def response_ok_accepted unpack_7_9 unpack_9_11
           dest: accepted_length split: sum.splits option.splits)

lemma replies_apply: "replies r command n = Inr (Some r)"
  by (simp add: replies_def)



lemmas read_eqs = read_nitrogen_eq read_phosphorus_eq read_potassium_eq read_ec_eq read_ph_eq

text \<open>
  Claim C3. Whatever collaborator \<open>x\<close> the sensor has: when the response \<open>r\<close> it
  returns has a first byte other than the device id, or a second byte other than 3, or
  fewer than 7 bytes (5 + byteCount 2), each of \<open>read_nitrogen\<close>, \<open>read_phosphorus\<close>,
  \<open>read_potassium\<close>, \<open>read_ec\<close> and \<open>read_ph\<close> returns \<open>None\<close>, never a number.
\<close>

theorem rejected_response_gives_None:
  assumes "length r < 7 \<or> uint (r ! 0) \<noteq> dev \<or> r ! 1 \<noteq> 0x03"
  shows "(x CMD_READ_N 7 = Inr (Some r) \<longrightarrow> read_nitrogen dev x = None) \<and>
         (x CMD_READ_P 7 = Inr (Some r) \<longrightarrow> read_phosphorus dev x = None) \<and>
         (x CMD_READ_K 7 = Inr (Some r) \<longrightarrow> read_potassium dev x = None) \<and>
         (x CMD_READ_EC 7 = Inr (Some r) \<longrightarrow> read_ec dev x = None) \<and>
         (x CMD_READ_PH 7 = Inr (Some r) \<longrightarrow> read_ph dev x = None)"
proof -
  from assms have "\<not> accepted dev 7 r"
    by (auto simp: accepted_def)
  then show ?thesis
    by (simp add: read_eqs)
qed

text \<open>
  The theorem at three responses to device 1: one from device 2, one with function code
  6, one of six bytes.
\<close>

theorem rejected_response_gives_None_witness:
  "read_nitrogen 1 (replies [0x02, 0x03, 0x02, 0x00, 0x64, 0xB9, 0xAF]) = None \<and>
   read_phosphorus 1 (replies [0x02, 0x03, 0x02, 0x00, 0x64, 0xB9, 0xAF]) = None \<and>
   read_potassium 1 (replies [0x02, 0x03, 0x02, 0x00, 0x64, 0xB9, 0xAF]) = None \<and>
   read_ec 1 (replies [0x02, 0x03, 0x02, 0x00, 0x64, 0xB9, 0xAF]) = None \<and>
   read_ph 1 (replies [0x02, 0x03, 0x02, 0x00, 0x64, 0xB9, 0xAF]) = None \<and>
   read_nitrogen 1 (replies [0x01, 0x06, 0x02, 0x00, 0x64, 0xB9, 0xAF]) = None \<and>
   read_ph 1 (replies [0x01, 0x03, 0x02, 0x00, 0x64, 0xB9]) = None"
proof -
  let ?a = "[0x02, 0x03, 0x02, 0x00, 0x64, 0xB9, 0xAF] :: bytes"
  let ?b = "[0x01, 0x06, 0x02, 0x00, 0x64, 0xB9, 0xAF] :: bytes"
  let ?c = "[0x01, 0x03, 0x02, 0x00, 0x64, 0xB9] :: bytes"
  have a: "length ?a < 7 \<or> uint (?a ! 0) \<noteq> 1 \<or> ?a ! 1 \<noteq> 0x03" by simp
  have b: "length ?b < 7 \<or> uint (?b ! 0) \<noteq> 1 \<or> ?b ! 1 \<noteq> 0x03" by simp
  have c: "length ?c < 7 \<or> uint (?c ! 0) \<noteq> 1 \<or> ?c ! 1 \<noteq> 0x03" by simp
  show ?thesis
    using rejected_response_gives_None [OF a, of "replies ?a"]
      rejected_response_gives_None [OF b, of "replies ?b"]
      rejected_response_gives_None [OF c, of "replies ?c"]
    by (simp add: replies_apply)
qed

lemma accepted_update_2: "accepted dev n (r[2 := b]) = accepted dev n r"
  by (simp add: accepted_def)

lemma uint16_be_update_2: "3 \<le> i \<Longrightarrow> uint16_be (r[2 := b]) i = uint16_be r i"
  by (simp add: uint16_be_def)

lemmas group_eqs = read_npk_eq read_ec_ph_eq

text \<open>
  Claim C4, as stated: every response a read operation accepts has its byteCount field
  (byte 2) equal to twice the register count. The code never looks at that byte: for
  device 1, \<open>read_nitrogen\<close> decodes 100 from a response whose byte 2 is \<open>0xFF\<close>, not 2.
\<close>

theorem byte_count_field_unchecked:
  "read_nitrogen 1 (replies [0x01, 0x03, 0xFF, 0x00, 0x64, 0xB9, 0xAF]) = Some 100 \<and>
   [0x01, 0x03, 0xFF, 0x00, 0x64, 0xB9, 0xAF] ! 2 \<noteq> (2 :: byte)"
  by (simp add: read_nitrogen_eq replies_apply accepted_def uint16_be_def)

text \<open>
  Claim C4, amended: every response \<open>r\<close> that a read operation accepts and decodes
  into a value has at least the expected length (7 for a single register, 11 for NPK,
  13 for EC/pH), first byte equal to the device id and second byte 3; the byteCount field
  at index 2 is not examined, so the same result is decoded whatever byte \<open>b\<close> stands
  there.
\<close>

theorem accepted_response_shape:
  "(x CMD_READ_N 7 = Inr (Some r) \<and> read_nitrogen dev x = Some v \<longrightarrow>
      7 \<le> length r \<and> uint (r ! 0) = dev \<and> r ! 1 = 0x03 \<and>
      read_nitrogen dev (replies (r[2 := b])) = Some v) \<and>
   (x CMD_READ_P 7 = Inr (Some r) \<and> read_phosphorus dev x = Some v \<longrightarrow>
      7 \<le> length r \<and> uint (r ! 0) = dev \<and> r ! 1 = 0x03 \<and>
      read_phosphorus dev (replies (r[2 := b])) = Some v) \<and>
   (x CMD_READ_K 7 = Inr (Some r) \<and> read_potassium dev x = Some v \<longrightarrow>
      7 \<le> length r \<and> uint (r ! 0) = dev \<and> r ! 1 = 0x03 \<and>
      read_potassium dev (replies (r[2 := b])) = Some v) \<and>
   (x CMD_READ_EC 7 = Inr (Some r) \<and> read_ec dev x = Some v \<longrightarrow>
      7 \<le> length r \<and> uint (r ! 0) = dev \<and> r ! 1 = 0x03 \<and>
      read_ec dev (replies (r[2 := b])) = Some v) \<and>
   (x CMD_READ_PH 7 = Inr (Some r) \<and> read_ph dev x = Some w \<longrightarrow>
      7 \<le> length r \<and> uint (r ! 0) = dev \<and> r ! 1 = 0x03 \<and>
      read_ph dev (replies (r[2 := b])) = Some w) \<and>
   (x CMD_READ_NPK 11 = Inr (Some r) \<and> read_npk dev x ''nitrogen'' \<noteq> Some PyNone \<longrightarrow>
      11 \<le> length r \<and> uint (r ! 0) = dev \<and> r ! 1 = 0x03 \<and>
      read_npk dev (replies (r[2 := b])) = read_npk dev x) \<and>
   (x CMD_READ_EC_PH 13 = Inr (Some r) \<and> read_ec_ph dev x ''ec'' \<noteq> Some PyNone \<longrightarrow>
      13 \<le> length r \<and> uint (r ! 0) = dev \<and> r ! 1 = 0x03 \<and>
      read_ec_ph dev (replies (r[2 := b])) = read_ec_ph dev x)"
proof -
  have n: "x CMD_READ_N 7 = Inr (Some r) \<and> read_nitrogen dev x = Some v \<longrightarrow>
      7 \<le> length r \<and> uint (r ! 0) = dev \<and> r ! 1 = 0x03 \<and>
      read_nitrogen dev (replies (r[2 := b])) = Some v"
    by (auto simp: read_nitrogen_eq replies_apply accepted_update_2 uint16_be_update_2
          accepted_def split: if_splits)
  have p: "x CMD_READ_P 7 = Inr (Some r) \<and> read_phosphorus dev x = Some v \<longrightarrow>
      7 \<le> length r \<and> uint (r ! 0) = dev \<and> r ! 1 = 0x03 \<and>
      read_phosphorus dev (replies (r[2 := b])) = Some v"
    by (auto simp: read_phosphorus_eq replies_apply accepted_update_2 uint16_be_update_2
          accepted_def split: if_splits)
  have k: "x CMD_READ_K 7 = Inr (Some r) \<and> read_potassium dev x = Some v \<longrightarrow>
      7 \<le> length r \<and> uint (r ! 0) = dev \<and> r ! 1 = 0x03 \<and>
      read_potassium dev (replies (r[2 := b])) = Some v"
    by (auto simp: read_potassium_eq replies_apply accepted_update_2 uint16_be_update_2
          accepted_def split: if_splits)
  have e: "x CMD_READ_EC 7 = Inr (Some r) \<and> read_ec dev x = Some v \<longrightarrow>
      7 \<le> length r \<and> uint (r ! 0) = dev \<and> r ! 1 = 0x03 \<and>
      read_ec dev (replies (r[2 := b])) = Some v"
    by (auto simp: read_ec_eq replies_apply accepted_update_2 uint16_be_update_2
          accepted_def split: if_splits)
  have h: "x CMD_READ_PH 7 = Inr (Some r) \<and> read_ph dev x = Some w \<longrightarrow>
      7 \<le> length r \<and> uint (r ! 0) = dev \<and> r ! 1 = 0x03 \<and>
      read_ph dev (replies (r[2 := b])) = Some w"
    by (auto simp: read_ph_eq replies_apply accepted_update_2 uint16_be_update_2
          accepted_def split: if_splits)
  have g: "x CMD_READ_NPK 11 = Inr (Some r) \<and> read_npk dev x ''nitrogen'' \<noteq> Some PyNone \<longrightarrow>
      11 \<le> length r \<and> uint (r ! 0) = dev \<and> r ! 1 = 0x03 \<and>
      read_npk dev (replies (r[2 := b])) = read_npk dev x"
    by (auto simp: read_npk_eq replies_apply accepted_update_2 uint16_be_update_2
          accepted_def split: if_splits)
  have q: "x CMD_READ_EC_PH 13 = Inr (Some r) \<and> read_ec_ph dev x ''ec'' \<noteq> Some PyNone \<longrightarrow>
      13 \<le> length r \<and> uint (r ! 0) = dev \<and> r ! 1 = 0x03 \<and>
      read_ec_ph dev (replies (r[2 := b])) = read_ec_ph dev x"
    by (auto simp: read_ec_ph_eq replies_apply accepted_update_2 uint16_be_update_2
          accepted_def split: if_splits)
  from n p k e h g q show ?thesis by blast
qed

text \<open>
  The theorem at device 1, on a 7-byte and a 13-byte response whose byte 2 is \<open>0xFF\<close>:
  putting the nominal byteCount there changes no result.
\<close>

theorem accepted_response_shape_witness:
  "read_nitrogen 1 (replies ([0x01, 0x03, 0xFF, 0x00, 0x64, 0xB9, 0xAF][2 := 0x02])) = Some 100 \<and>
   read_phosphorus 1 (replies ([0x01, 0x03, 0xFF, 0x00, 0x64, 0xB9, 0xAF][2 := 0x02])) = Some 100 \<and>
   read_potassium 1 (replies ([0x01, 0x03, 0xFF, 0x00, 0x64, 0xB9, 0xAF][2 := 0x02])) = Some 100 \<and>
   read_ec 1 (replies ([0x01, 0x03, 0xFF, 0x00, 0x64, 0xB9, 0xAF][2 := 0x02])) = Some 100 \<and>
   read_ph 1 (replies ([0x01, 0x03, 0xFF, 0x00, 0x64, 0xB9, 0xAF][2 := 0x02])) = Some 10 \<and>
   read_npk 1
     (replies ([0x01, 0x03, 0xFF, 0x00, 0x64, 0x01, 0xF4, 0x03, 0xE8, 0x00, 0x44, 0x00, 0x00]
                 [2 := 0x06])) =
     read_npk 1 (replies [0x01, 0x03, 0xFF, 0x00, 0x64, 0x01, 0xF4, 0x03, 0xE8, 0x00, 0x44, 0x00, 0x00]) \<and>
   read_ec_ph 1
     (replies ([0x01, 0x03, 0xFF, 0x00, 0x64, 0x01, 0xF4, 0x03, 0xE8, 0x00, 0x44, 0x00, 0x00]
                 [2 := 0x08])) =
     read_ec_ph 1 (replies [0x01, 0x03, 0xFF, 0x00, 0x64, 0x01, 0xF4, 0x03, 0xE8, 0x00, 0x44, 0x00, 0x00])"
proof -
  let ?s = "[0x01, 0x03, 0xFF, 0x00, 0x64, 0xB9, 0xAF] :: bytes"
  let ?g = "[0x01, 0x03, 0xFF, 0x00, 0x64, 0x01, 0xF4, 0x03, 0xE8, 0x00, 0x44, 0x00, 0x00] :: bytes"
  have s: "read_nitrogen 1 (replies ?s) = Some 100" "read_phosphorus 1 (replies ?s) = Some 100"
    "read_potassium 1 (replies ?s) = Some 100" "read_ec 1 (replies ?s) = Some 100"
    "read_ph 1 (replies ?s) = Some 10"
    by (simp_all add: read_eqs replies_apply accepted_def uint16_be_def)
  have g: "read_npk 1 (replies ?g) ''nitrogen'' \<noteq> Some PyNone"
    "read_ec_ph 1 (replies ?g) ''ec'' \<noteq> Some PyNone"
    by (simp_all add: group_eqs replies_apply accepted_def)
  have x: "replies ?s c n = Inr (Some ?s)" "replies ?g c n = Inr (Some ?g)" for c n
    by (simp_all add: replies_apply)
  from s x(1)
    accepted_response_shape [where x = "replies ?s" and r = ?s and dev = 1 and v = 100 and w = 10
      and b = "0x02"]
  have single: "read_nitrogen 1 (replies (?s[2 := 0x02])) = Some 100"
    "read_phosphorus 1 (replies (?s[2 := 0x02])) = Some 100"
    "read_potassium 1 (replies (?s[2 := 0x02])) = Some 100"
    "read_ec 1 (replies (?s[2 := 0x02])) = Some 100"
    "read_ph 1 (replies (?s[2 := 0x02])) = Some 10"
    by blast+
  from g x(2) accepted_response_shape [where x = "replies ?g" and r = ?g and dev = 1 and b = "0x06"]
  have npk: "read_npk 1 (replies (?g[2 := 0x06])) = read_npk 1 (replies ?g)"
    by blast
  from g x(2) accepted_response_shape [where x = "replies ?g" and r = ?g and dev = 1 and b = "0x08"]
  have ecph: "read_ec_ph 1 (replies (?g[2 := 0x08])) = read_ec_ph 1 (replies ?g)"
    by blast
  from single npk ecph show ?thesis by blast
qed

lemma uint16_be_data: "3 \<le> length r \<Longrightarrow> uint16_be (drop 3 r) i = uint16_be r (3 + i)"
  by (simp add: uint16_be_def add.assoc)

text \<open>
  Claim C6. On an accepted grouped response \<open>r\<close>, with data field \<open>drop 3 r\<close>: the NPK
  read decodes nitrogen, phosphorus and potassium as big-endian unsigned 16-bit integers
  at data offsets 0, 2 and 4; the EC/pH read skips humidity (offset 0) and temperature
  (offset 2), decodes EC at data offset 4 and pH at data offset 6, the latter divided
  by 10.
\<close>

theorem grouped_fields_by_offset:
  "(x CMD_READ_NPK 11 = Inr (Some r) \<and> accepted dev 11 r \<longrightarrow>
      read_npk dev x =
        [''nitrogen'' \<mapsto> PyInt (uint16_be (drop 3 r) 0),
         ''phosphorus'' \<mapsto> PyInt (uint16_be (drop 3 r) 2),
         ''potassium'' \<mapsto> PyInt (uint16_be (drop 3 r) 4)]) \<and>
   (x CMD_READ_EC_PH 13 = Inr (Some r) \<and> accepted dev 13 r \<longrightarrow>
      read_ec_ph dev x =
        [''ec'' \<mapsto> PyInt (uint16_be (drop 3 r) 4),
         ''ph'' \<mapsto> PyFloat (of_int (uint16_be (drop 3 r) 6) / 10)])"
proof -
  have npk: "x CMD_READ_NPK 11 = Inr (Some r) \<and> accepted dev 11 r \<longrightarrow>
      read_npk dev x =
        [''nitrogen'' \<mapsto> PyInt (uint16_be (drop 3 r) 0),
         ''phosphorus'' \<mapsto> PyInt (uint16_be (drop 3 r) 2),
         ''potassium'' \<mapsto> PyInt (uint16_be (drop 3 r) 4)]"
    by (auto simp: read_npk_eq uint16_be_data dest: accepted_length)
  have ecph: "x CMD_READ_EC_PH 13 = Inr (Some r) \<and> accepted dev 13 r \<longrightarrow>
      read_ec_ph dev x =
        [''ec'' \<mapsto> PyInt (uint16_be (drop 3 r) 4),
         ''ph'' \<mapsto> PyFloat (of_int (uint16_be (drop 3 r) 6) / 10)]"
    by (auto simp: read_ec_ph_eq uint16_be_data dest: accepted_length)
  from npk ecph show ?thesis by blast
qed

text \<open>
  The theorem at device 1: N = 100, P = 500, K = 1000; humidity 500 and temperature 250
  skipped, EC = 1000, raw pH 68.
\<close>

theorem grouped_fields_by_offset_witness:
  "read_npk 1 (replies [0x01, 0x03, 0x06, 0x00, 0x64, 0x01, 0xF4, 0x03, 0xE8, 0x97, 0x66]) =
     [''nitrogen'' \<mapsto> PyInt 100, ''phosphorus'' \<mapsto> PyInt 500, ''potassium'' \<mapsto> PyInt 1000] \<and>
   read_ec_ph 1
     (replies [0x01, 0x03, 0x08, 0x01, 0xF4, 0x00, 0xFA, 0x03, 0xE8, 0x00, 0x44, 0x00, 0x00]) =
     [''ec'' \<mapsto> PyInt 1000, ''ph'' \<mapsto> PyFloat 6.8]"
proof -
  let ?n = "[0x01, 0x03, 0x06, 0x00, 0x64, 0x01, 0xF4, 0x03, 0xE8, 0x97, 0x66] :: bytes"
  let ?e = "[0x01, 0x03, 0x08, 0x01, 0xF4, 0x00, 0xFA, 0x03, 0xE8, 0x00, 0x44, 0x00, 0x00] :: bytes"
  have an: "accepted 1 11 ?n" by (simp add: accepted_def)
  have ae: "accepted 1 13 ?e" by (simp add: accepted_def)
  show ?thesis
    using grouped_fields_by_offset [of "replies ?n" ?n 1] grouped_fields_by_offset [of "replies ?e" ?e 1]
      an ae
    by (simp add: replies_apply uint16_be_def)
qed

text \<open>
  Claim C7. For every accepted pH response the value returned by \<open>read_ph\<close> is the raw
  big-endian 16-bit register value (bytes 3 and 4) divided by 10: raw 250 gives 25.0 and
  raw 68 gives 6.8.
\<close>

theorem ph_is_raw_over_ten:
  assumes "x CMD_READ_PH 7 = Inr (Some r)" and "accepted dev 7 r"
  shows "read_ph dev x = Some (of_int (uint16_be r 3) / 10) \<and>
         (uint16_be r 3 = 250 \<longrightarrow> read_ph dev x = Some 25.0) \<and>
         (uint16_be r 3 = 68 \<longrightarrow> read_ph dev x = Some 6.8)"
  using assms by (simp add: read_ph_eq)

text \<open>The theorem at device 1, on responses carrying raw 250 and raw 68.\<close>

theorem ph_is_raw_over_ten_witness:
  "read_ph 1 (replies [0x01, 0x03, 0x02, 0x00, 0xFA, 0x00, 0x00]) = Some 25.0 \<and>
   read_ph 1 (replies [0x01, 0x03, 0x02, 0x00, 0x44, 0x00, 0x00]) = Some 6.8"
proof -
  let ?a = "[0x01, 0x03, 0x02, 0x00, 0xFA, 0x00, 0x00] :: bytes"
  let ?b = "[0x01, 0x03, 0x02, 0x00, 0x44, 0x00, 0x00] :: bytes"
  have a: "accepted 1 7 ?a" and b: "accepted 1 7 ?b" by (simp_all add: accepted_def)
  have ra: "uint16_be ?a 3 = 250" and rb: "uint16_be ?b 3 = 68" by (simp_all add: uint16_be_def)
  have xa: "replies ?a CMD_READ_PH 7 = Inr (Some ?a)" and xb: "replies ?b CMD_READ_PH 7 = Inr (Some ?b)"
    by (simp_all add: replies_apply)
  show ?thesis
    using ph_is_raw_over_ten [where x = "replies ?a" and r = ?a and dev = 1]
      ph_is_raw_over_ten [where x = "replies ?b" and r = ?b and dev = 1] xa xb a b ra rb
    by simp
qed

lemma crc_value_reply_100: "crc_value [0x01, 0x03, 0x02, 0x00, 0x64] = 0xAFB9"
  by (simp add: crc_eval)

lemma crc_value_reply_group:
  "crc_value [0x01, 0x03, 0x08, 0x01, 0xF4, 0x00, 0xFA, 0x03, 0xE8, 0x00, 0x44] = 0x83B9"
  by (simp add: crc_eval)

lemma crc_invalid_reply_group:
  "\<not> crc_valid [0x01, 0x03, 0x08, 0x01, 0xF4, 0x00, 0xFA, 0x03, 0xE8, 0x00, 0x44, 0x00, 0x00]"
  by (simp add: crc_valid_def calculate_crc16_def bytes_of_def crc_value_reply_group)

lemma crc_invalid_reply_100: "\<not> crc_valid [0x01, 0x03, 0x02, 0x00, 0x64, 0x00, 0x00]"
  by (simp add: crc_valid_def calculate_crc16_def bytes_of_def crc_value_reply_100)

text \<open>
  Claim C8. For every response of sufficient length whose first byte is the device id
  and whose second byte is 3, the read operations decode and return the measurement
  even when the trailing two bytes are not the CRC-16 of the bytes before them: the
  response CRC is not verified.
\<close>

theorem crc_mismatch_still_decoded:
  assumes "\<not> crc_valid r"
  shows "(x CMD_READ_N 7 = Inr (Some r) \<and> accepted dev 7 r \<longrightarrow>
            read_nitrogen dev x = Some (uint16_be r 3)) \<and>
         (x CMD_READ_P 7 = Inr (Some r) \<and> accepted dev 7 r \<longrightarrow>
            read_phosphorus dev x = Some (uint16_be r 3)) \<and>
         (x CMD_READ_K 7 = Inr (Some r) \<and> accepted dev 7 r \<longrightarrow>
            read_potassium dev x = Some (uint16_be r 3)) \<and>
         (x CMD_READ_EC 7 = Inr (Some r) \<and> accepted dev 7 r \<longrightarrow>
            read_ec dev x = Some (uint16_be r 3)) \<and>
         (x CMD_READ_PH 7 = Inr (Some r) \<and> accepted dev 7 r \<longrightarrow>
            read_ph dev x = Some (of_int (uint16_be r 3) / 10)) \<and>
         (x CMD_READ_NPK 11 = Inr (Some r) \<and> accepted dev 11 r \<longrightarrow>
            read_npk dev x =
              [''nitrogen'' \<mapsto> PyInt (uint16_be r 3), ''phosphorus'' \<mapsto> PyInt (uint16_be r 5),
               ''potassium'' \<mapsto> PyInt (uint16_be r 7)]) \<and>
         (x CMD_READ_EC_PH 13 = Inr (Some r) \<and> accepted dev 13 r \<longrightarrow>
            read_ec_ph dev x =
              [''ec'' \<mapsto> PyInt (uint16_be r 7), ''ph'' \<mapsto> PyFloat (of_int (uint16_be r 9) / 10)])"
  by (simp add: read_eqs group_eqs)

text \<open>
  The theorem at device 1, on a 7-byte and a 13-byte response whose CRC bytes are
  \<open>00 00\<close> where \<open>B9 AF\<close> and \<open>B9 83\<close> would be right.
\<close>

theorem crc_mismatch_still_decoded_witness:
  "\<not> crc_valid [0x01, 0x03, 0x02, 0x00, 0x64, 0x00, 0x00] \<and>
   read_nitrogen 1 (replies [0x01, 0x03, 0x02, 0x00, 0x64, 0x00, 0x00]) = Some 100 \<and>
   read_phosphorus 1 (replies [0x01, 0x03, 0x02, 0x00, 0x64, 0x00, 0x00]) = Some 100 \<and>
   read_potassium 1 (replies [0x01, 0x03, 0x02, 0x00, 0x64, 0x00, 0x00]) = Some 100 \<and>
   read_ec 1 (replies [0x01, 0x03, 0x02, 0x00, 0x64, 0x00, 0x00]) = Some 100 \<and>
   read_ph 1 (replies [0x01, 0x03, 0x02, 0x00, 0x64, 0x00, 0x00]) = Some 10 \<and>
   \<not> crc_valid [0x01, 0x03, 0x08, 0x01, 0xF4, 0x00, 0xFA, 0x03, 0xE8, 0x00, 0x44, 0x00, 0x00] \<and>
   read_npk 1 (replies [0x01, 0x03, 0x08, 0x01, 0xF4, 0x00, 0xFA, 0x03, 0xE8, 0x00, 0x44, 0x00, 0x00]) =
     [''nitrogen'' \<mapsto> PyInt 500, ''phosphorus'' \<mapsto> PyInt 250, ''potassium'' \<mapsto> PyInt 1000] \<and>
   read_ec_ph 1 (replies [0x01, 0x03, 0x08, 0x01, 0xF4, 0x00, 0xFA, 0x03, 0xE8, 0x00, 0x44, 0x00, 0x00]) =
     [''ec'' \<mapsto> PyInt 1000, ''ph'' \<mapsto> PyFloat 6.8]"
proof -
  let ?s = "[0x01, 0x03, 0x02, 0x00, 0x64, 0x00, 0x00] :: bytes"
  let ?g = "[0x01, 0x03, 0x08, 0x01, 0xF4, 0x00, 0xFA, 0x03, 0xE8, 0x00, 0x44, 0x00, 0x00] :: bytes"
  have a: "accepted 1 7 ?s" "accepted 1 11 ?g" "accepted 1 13 ?g"
    by (simp_all add: accepted_def)
  show ?thesis
    using crc_mismatch_still_decoded [OF crc_invalid_reply_100, of "replies ?s" 1]
      crc_mismatch_still_decoded [OF crc_invalid_reply_group, of "replies ?g" 1]
      crc_invalid_reply_100 crc_invalid_reply_group a
    by (simp add: replies_apply uint16_be_def)
qed



section \<open>Proofs: the transport session\<close>

lemma connect_keeps_open:
  "is_connected c \<longrightarrow> port_open c \<Longrightarrow> is_connected (fst (connect h c)) \<longrightarrow> port_open (fst (connect h c))"
  by (auto simp: connect_def port_open_def Let_def split: option.splits sum.splits)

lemma detect_port_keeps_open:
  assumes "is_connected c \<longrightarrow> port_open c"
  shows "is_connected (detect_port h c) \<longrightarrow> port_open (detect_port h c)"
proof -
  have p: "is_connected (c\<lparr>port := q\<rparr>) \<longrightarrow> port_open (c\<lparr>port := q\<rparr>)" for q
    using assms by (simp add: port_open_def)
  show ?thesis
    using assms p connect_keeps_open [OF p] connect_keeps_open [OF assms]
    by (auto simp: detect_port_def Let_def split: option.splits sum.splits)
qed

lemma init_keeps_open:
  "is_connected (init h p b t) \<longrightarrow> port_open (init h p b t)"
proof -
  let ?c = "\<lparr>port = p, baudrate = b, timeout = t, serial_conn = None,
             system = platform_system h, is_connected = False\<rparr>"
  have c: "is_connected ?c \<longrightarrow> port_open ?c" by simp
  show ?thesis
    using connect_keeps_open [OF c, of h] detect_port_keeps_open [OF c, of h]
    by (cases p) (simp_all add: init_def)
qed

lemma disconnect_not_connected:
  "is_connected c \<longrightarrow> port_open c \<Longrightarrow> \<not> is_connected (disconnect c)"
  by (auto simp: disconnect_def port_open_def split: option.splits)

lemma disconnect_not_open: "\<not> port_open (disconnect c)"
  by (auto simp: disconnect_def port_open_def split: option.splits)

lemma disconnect_closed: "\<not> port_open c \<Longrightarrow> disconnect c = c"
  by (auto simp: disconnect_def port_open_def split: option.splits)

lemma disconnect_twice: "disconnect (disconnect c) = disconnect c"
  by (rule disconnect_closed [OF disconnect_not_open])

lemma disconnect_again: "(disconnect ^^ Suc k) c = disconnect c"
  by (induction k) (simp_all add: disconnect_twice)

lemma read_response_keeps_open:
  "is_connected c \<longrightarrow> port_open c \<Longrightarrow>
   is_connected (fst (read_response c l n t)) \<longrightarrow> port_open (fst (read_response c l n t))"
  by (auto simp: read_response_def port_open_def Let_def split: option.splits sum.splits)

lemma send_and_receive_keeps_open:
  "is_connected c \<longrightarrow> port_open c \<Longrightarrow>
   is_connected (fst (send_and_receive c l cmd n t)) \<longrightarrow>
   port_open (fst (send_and_receive c l cmd n t))"
  using read_response_keeps_open [of c l n t] by (simp add: send_and_receive_def)

lemma perform_keeps_open:
  assumes "is_connected c \<longrightarrow> port_open c"
  shows "is_connected (perform c a) \<longrightarrow> port_open (perform c a)"
proof (cases a)
  case (Connect h)
  then show ?thesis using connect_keeps_open [OF assms] by simp
next
  case (DetectPort h)
  then show ?thesis using detect_port_keeps_open [OF assms] by simp
next
  case Disconnect
  then show ?thesis using disconnect_not_connected [OF assms] by simp
next
  case (SendCommand l cmd)
  then show ?thesis using assms by simp
next
  case (ReadResponse l n t)
  then show ?thesis using read_response_keeps_open [OF assms] by simp
next
  case (SendAndReceive l cmd n t)
  then show ?thesis using send_and_receive_keeps_open [OF assms] by simp
qed

lemma foldl_perform_keeps_open:
  "is_connected c \<longrightarrow> port_open c \<Longrightarrow>
   is_connected (foldl perform c calls) \<longrightarrow> port_open (foldl perform c calls)"
proof (induction calls arbitrary: c)
  case Nil
  then show ?case by simp
next
  case (Cons a calls)
  from perform_keeps_open [OF Cons.prems] have "is_connected (perform c a) \<longrightarrow> port_open (perform c a)" .
  from Cons.IH [OF this] show ?case by simp
qed

lemma session_keeps_open:
  "is_connected (session h p b t calls) \<longrightarrow> port_open (session h p b t calls)"
  unfolding session_def by (rule foldl_perform_keeps_open [OF init_keeps_open])

lemma connect_failed_closed:
  "\<not> port_open c \<Longrightarrow> \<not> is_connected (fst (connect h c)) \<Longrightarrow> \<not> port_open (fst (connect h c))"
  by (auto simp: connect_def port_open_def Let_def split: option.splits sum.splits if_splits)

lemma detect_port_failed_closed:
  assumes "\<not> port_open c" and "\<not> is_connected (detect_port h c)"
  shows "\<not> port_open (detect_port h c)"
proof -
  have p: "\<not> port_open (c\<lparr>port := q\<rparr>)" for q
    using assms(1) by (simp add: port_open_def)
  show ?thesis
    using assms p connect_failed_closed [OF p, of h] connect_failed_closed [OF assms(1), of h]
    by (auto simp: detect_port_def Let_def split: option.splits sum.splits if_splits)
qed

lemma init_failed_closed:
  "\<not> is_connected (init h p b t) \<Longrightarrow> \<not> port_open (init h p b t)"
proof -
  let ?c = "\<lparr>port = p, baudrate = b, timeout = t, serial_conn = None,
             system = platform_system h, is_connected = False\<rparr>"
  assume a: "\<not> is_connected (init h p b t)"
  have c: "\<not> port_open ?c" by (simp add: port_open_def)
  show ?thesis
    using a connect_failed_closed [OF c, of h] detect_port_failed_closed [OF c, of h]
    by (cases p) (simp_all add: init_def)
qed

text \<open>
  Claim C9. On a session in any state it can reach (constructed, then any calls),
  \<open>disconnect\<close> leaves \<open>is_connected\<close> false, a second call changes nothing, and
  neither does any later one; the same holds for the sensor's \<open>close\<close>. On a session
  whose construction did not open the port, the first call already changes nothing.
  No path of \<open>disconnect\<close> or \<open>close\<close> raises.
\<close>

theorem close_idempotent:
  "\<not> is_connected (disconnect (session h p b t calls)) \<and>
   disconnect (disconnect (session h p b t calls)) = disconnect (session h p b t calls) \<and>
   (disconnect ^^ Suc k) (session h p b t calls) = disconnect (session h p b t calls) \<and>
   \<not> is_connected (comm (close \<lparr>device_id = d, comm = session h p b t calls\<rparr>)) \<and>
   close (close \<lparr>device_id = d, comm = session h p b t calls\<rparr>) =
     close \<lparr>device_id = d, comm = session h p b t calls\<rparr> \<and>
   (\<not> is_connected (init h p b t) \<longrightarrow>
      disconnect (init h p b t) = init h p b t \<and>
      close (sensor_init h p b d t) = sensor_init h p b d t \<and>
      \<not> is_connected (comm (close (sensor_init h p b d t))))"
proof -
  let ?c = "session h p b t calls"
  have 1: "\<not> is_connected (disconnect ?c)"
    by (rule disconnect_not_connected [OF session_keeps_open])
  have 2: "disconnect (disconnect ?c) = disconnect ?c"
    by (rule disconnect_twice)
  have 3: "(disconnect ^^ Suc k) ?c = disconnect ?c"
    by (rule disconnect_again)
  have 4: "\<not> is_connected (comm (close \<lparr>device_id = d, comm = ?c\<rparr>))"
    using 1 by (simp add: close_def)
  have 5: "close (close \<lparr>device_id = d, comm = ?c\<rparr>) = close \<lparr>device_id = d, comm = ?c\<rparr>"
    using 2 by (simp add: close_def)
  have 6: "\<not> is_connected (init h p b t) \<longrightarrow>
      disconnect (init h p b t) = init h p b t \<and>
      close (sensor_init h p b d t) = sensor_init h p b d t \<and>
      \<not> is_connected (comm (close (sensor_init h p b d t)))"
  proof
    assume a: "\<not> is_connected (init h p b t)"
    from disconnect_closed [OF init_failed_closed [OF a]]
    have e: "disconnect (init h p b t) = init h p b t" .
    with a show "disconnect (init h p b t) = init h p b t \<and>
      close (sensor_init h p b d t) = sensor_init h p b d t \<and>
      \<not> is_connected (comm (close (sensor_init h p b d t)))"
      by (simp add: close_def sensor_init_def)
  qed
  from 1 2 3 4 5 6 show ?thesis by blast
qed

text \<open>
  The theorem at a session whose port could not be opened, and at one that was opened
  and is closed twice.
\<close>

theorem close_idempotent_witness:
  "\<not> is_connected
       (init \<lparr>has_pyserial = True, comports = Inr [], serial_open = Inl SerialException,
              platform_system = ''Linux''\<rparr> (Some ''/dev/ttyUSB0'') 9600 1) \<and>
   disconnect
       (init \<lparr>has_pyserial = True, comports = Inr [], serial_open = Inl SerialException,
              platform_system = ''Linux''\<rparr> (Some ''/dev/ttyUSB0'') 9600 1) =
     init \<lparr>has_pyserial = True, comports = Inr [], serial_open = Inl SerialException,
            platform_system = ''Linux''\<rparr> (Some ''/dev/ttyUSB0'') 9600 1 \<and>
   close
       (sensor_init \<lparr>has_pyserial = True, comports = Inr [], serial_open = Inl SerialException,
                     platform_system = ''Linux''\<rparr> (Some ''/dev/ttyUSB0'') 9600 1 1) =
     sensor_init \<lparr>has_pyserial = True, comports = Inr [], serial_open = Inl SerialException,
                   platform_system = ''Linux''\<rparr> (Some ''/dev/ttyUSB0'') 9600 1 1 \<and>
   is_connected
       (session \<lparr>has_pyserial = True, comports = Inr [], serial_open = Inr True,
                 platform_system = ''Linux''\<rparr> (Some ''/dev/ttyUSB0'') 9600 1 []) \<and>
   \<not> is_connected
       (disconnect
          (session \<lparr>has_pyserial = True, comports = Inr [], serial_open = Inr True,
                    platform_system = ''Linux''\<rparr> (Some ''/dev/ttyUSB0'') 9600 1 [])) \<and>
   disconnect
       (disconnect
          (session \<lparr>has_pyserial = True, comports = Inr [], serial_open = Inr True,
                    platform_system = ''Linux''\<rparr> (Some ''/dev/ttyUSB0'') 9600 1 [])) =
     disconnect
       (session \<lparr>has_pyserial = True, comports = Inr [], serial_open = Inr True,
                 platform_system = ''Linux''\<rparr> (Some ''/dev/ttyUSB0'') 9600 1 [])"
proof -
  let ?h = "\<lparr>has_pyserial = True, comports = Inr [], serial_open = Inl SerialException,
             platform_system = ''Linux''\<rparr>"
  let ?k = "\<lparr>has_pyserial = True, comports = Inr [], serial_open = Inr True,
             platform_system = ''Linux''\<rparr>"
  have n: "\<not> is_connected (init ?h (Some ''/dev/ttyUSB0'') 9600 1)"
    by (simp add: init_def connect_def)
  have o: "is_connected (session ?k (Some ''/dev/ttyUSB0'') 9600 1 [])"
    by (simp add: session_def init_def connect_def)
  from n o close_idempotent [of ?h "Some ''/dev/ttyUSB0''" 9600 1 "[]" 0 1]
    close_idempotent [of ?k "Some ''/dev/ttyUSB0''" 9600 1 "[]" 0 1]
  show ?thesis by blast
qed

lemma on_line_cases:
  "on_line c l cmd n = Inr None \<or> on_line c l cmd n = Inr (Some (take n (arrived l)))"
  by (auto simp: on_line_def send_and_receive_def read_response_def serial_read_def Let_def
           split: option.splits sum.splits)

lemma short_not_accepted: "length a < n \<Longrightarrow> \<not> accepted dev n (take n a)"
  by (simp add: accepted_def)

lemma short_single_reads:
  assumes "length (arrived l) < 7"
  shows "read_nitrogen dev (on_line c l) = None \<and> read_phosphorus dev (on_line c l) = None \<and>
         read_potassium dev (on_line c l) = None \<and> read_ec dev (on_line c l) = None \<and>
         read_ph dev (on_line c l) = None"
  using on_line_cases [of c l CMD_READ_N 7] on_line_cases [of c l CMD_READ_P 7]
    on_line_cases [of c l CMD_READ_K 7] on_line_cases [of c l CMD_READ_EC 7]
    on_line_cases [of c l CMD_READ_PH 7] short_not_accepted [OF assms, of dev]
  by (auto simp: read_eqs)

lemma short_npk:
  assumes "length (arrived l) < 11"
  shows "read_npk dev (on_line c l) =
           [''nitrogen'' \<mapsto> PyNone, ''phosphorus'' \<mapsto> PyNone, ''potassium'' \<mapsto> PyNone]"
  using on_line_cases [of c l CMD_READ_NPK 11] short_not_accepted [OF assms, of dev]
  by (auto simp: read_npk_eq)

lemma short_ec_ph:
  assumes "length (arrived l) < 13"
  shows "read_ec_ph dev (on_line c l) = [''ec'' \<mapsto> PyNone, ''ph'' \<mapsto> PyNone]"
  using on_line_cases [of c l CMD_READ_EC_PH 13] short_not_accepted [OF assms, of dev]
  by (auto simp: read_ec_ph_eq)

lemma send_and_receive_connected:
  assumes "is_connected c" and "serial_conn c = Some s" and "is_open s"
    and "write_error l = None" and "read_error l = None"
  shows "send_and_receive c l command (Some n) None = (c, Some (take n (arrived l)))"
proof -
  have "c\<lparr>serial_conn := Some s\<rparr> = c"
    using assms(2) by (cases c) simp
  then show ?thesis
    using assms
    by (simp add: send_and_receive_def send_command_def serial_write_def read_response_def
          serial_read_def)
qed

text \<open>
  Claim C5, as stated: when fewer bytes than expected arrive before the timeout,
  \<open>send_and_receive\<close> yields a failure, never a truncated byte string. On an open
  session where 3 of the 7 expected bytes arrive, the code returns those 3 bytes.
\<close>

theorem short_read_is_success:
  "is_connected
     (init \<lparr>has_pyserial = True, comports = Inr [], serial_open = Inr True,
            platform_system = ''Windows''\<rparr> (Some ''COM1'') 9600 1) \<and>
   length (arrived \<lparr>write_error = None, read_error = None, arrived = [0x01, 0x03, 0x02],
                    buffered = [], buffered_later = []\<rparr>) < 7 \<and>
   snd (send_and_receive
          (init \<lparr>has_pyserial = True, comports = Inr [], serial_open = Inr True,
                 platform_system = ''Windows''\<rparr> (Some ''COM1'') 9600 1)
          \<lparr>write_error = None, read_error = None, arrived = [0x01, 0x03, 0x02],
             buffered = [], buffered_later = []\<rparr>
          CMD_READ_N (Some 7) None) = Some [0x01, 0x03, 0x02]"
  by (simp add: init_def connect_def send_and_receive_def send_command_def serial_write_def
        read_response_def serial_read_def)

text \<open>
  Claim C5, amended: when fewer bytes than expected arrive before the timeout, on a
  connected session whose write and read raise nothing, \<open>send_and_receive\<close> returns
  exactly the bytes that arrived (a short, possibly empty byte string, not a failure)
  and leaves the session as it was; the sensor's read operations then reject the short
  response (\<open>None\<close>, or a dictionary of \<open>None\<close>).
\<close>

theorem short_read_returned_then_rejected:
  assumes "is_connected c" and "serial_conn c = Some s" and "is_open s"
    and "write_error l = None" and "read_error l = None"
    and "length (arrived l) < n"
  shows "send_and_receive c l command (Some n) None = (c, Some (arrived l)) \<and>
         (n = 7 \<longrightarrow>
            read_nitrogen dev (on_line c l) = None \<and> read_phosphorus dev (on_line c l) = None \<and>
            read_potassium dev (on_line c l) = None \<and> read_ec dev (on_line c l) = None \<and>
            read_ph dev (on_line c l) = None) \<and>
         (n = 11 \<longrightarrow>
            read_npk dev (on_line c l) =
              [''nitrogen'' \<mapsto> PyNone, ''phosphorus'' \<mapsto> PyNone, ''potassium'' \<mapsto> PyNone]) \<and>
         (n = 13 \<longrightarrow> read_ec_ph dev (on_line c l) = [''ec'' \<mapsto> PyNone, ''ph'' \<mapsto> PyNone])"
proof -
  have "send_and_receive c l command (Some n) None = (c, Some (arrived l))"
    using send_and_receive_connected [OF assms(1-5), of command n] assms(6) by simp
  moreover have "n = 7 \<longrightarrow>
            read_nitrogen dev (on_line c l) = None \<and> read_phosphorus dev (on_line c l) = None \<and>
            read_potassium dev (on_line c l) = None \<and> read_ec dev (on_line c l) = None \<and>
            read_ph dev (on_line c l) = None"
    using assms(6) short_single_reads [of l dev c] by blast
  moreover have "n = 11 \<longrightarrow>
            read_npk dev (on_line c l) =
              [''nitrogen'' \<mapsto> PyNone, ''phosphorus'' \<mapsto> PyNone, ''potassium'' \<mapsto> PyNone]"
    using assms(6) short_npk [of l dev c] by blast
  moreover have "n = 13 \<longrightarrow> read_ec_ph dev (on_line c l) = [''ec'' \<mapsto> PyNone, ''ph'' \<mapsto> PyNone]"
    using assms(6) short_ec_ph [of l dev c] by blast
  ultimately show ?thesis by blast
qed

text \<open>The theorem at an open session on which 3 bytes arrive, for all seven reads.\<close>

theorem short_read_returned_then_rejected_witness:
  "send_and_receive
     (init \<lparr>has_pyserial = True, comports = Inr [], serial_open = Inr True,
            platform_system = ''Windows''\<rparr> (Some ''COM1'') 9600 1)
     \<lparr>write_error = None, read_error = None, arrived = [0x01, 0x03, 0x02],
      buffered = [], buffered_later = []\<rparr>
     CMD_READ_N (Some 7) None =
     ((init \<lparr>has_pyserial = True, comports = Inr [], serial_open = Inr True,
            platform_system = ''Windows''\<rparr> (Some ''COM1'') 9600 1),
      Some [0x01, 0x03, 0x02]) \<and>
   read_nitrogen 1 (on_line (init \<lparr>has_pyserial = True, comports = Inr [], serial_open = Inr True,
            platform_system = ''Windows''\<rparr> (Some ''COM1'') 9600 1) \<lparr>write_error = None, read_error = None, arrived = [0x01, 0x03, 0x02],
      buffered = [], buffered_later = []\<rparr>) = None \<and>
   read_phosphorus 1 (on_line (init \<lparr>has_pyserial = True, comports = Inr [], serial_open = Inr True,
            platform_system = ''Windows''\<rparr> (Some ''COM1'') 9600 1) \<lparr>write_error = None, read_error = None, arrived = [0x01, 0x03, 0x02],
      buffered = [], buffered_later = []\<rparr>) = None \<and>
   read_potassium 1 (on_line (init \<lparr>has_pyserial = True, comports = Inr [], serial_open = Inr True,
            platform_system = ''Windows''\<rparr> (Some ''COM1'') 9600 1) \<lparr>write_error = None, read_error = None, arrived = [0x01, 0x03, 0x02],
      buffered = [], buffered_later = []\<rparr>) = None \<and>
   read_ec 1 (on_line (init \<lparr>has_pyserial = True, comports = Inr [], serial_open = Inr True,
            platform_system = ''Windows''\<rparr> (Some ''COM1'') 9600 1) \<lparr>write_error = None, read_error = None, arrived = [0x01, 0x03, 0x02],
      buffered = [], buffered_later = []\<rparr>) = None \<and>
   read_ph 1 (on_line (init \<lparr>has_pyserial = True, comports = Inr [], serial_open = Inr True,
            platform_system = ''Windows''\<rparr> (Some ''COM1'') 9600 1) \<lparr>write_error = None, read_error = None, arrived = [0x01, 0x03, 0x02],
      buffered = [], buffered_later = []\<rparr>) = None \<and>
   read_npk 1 (on_line (init \<lparr>has_pyserial = True, comports = Inr [], serial_open = Inr True,
            platform_system = ''Windows''\<rparr> (Some ''COM1'') 9600 1) \<lparr>write_error = None, read_error = None, arrived = [0x01, 0x03, 0x02],
      buffered = [], buffered_later = []\<rparr>) =
     [''nitrogen'' \<mapsto> PyNone, ''phosphorus'' \<mapsto> PyNone, ''potassium'' \<mapsto> PyNone] \<and>
   read_ec_ph 1 (on_line (init \<lparr>has_pyserial = True, comports = Inr [], serial_open = Inr True,
            platform_system = ''Windows''\<rparr> (Some ''COM1'') 9600 1) \<lparr>write_error = None, read_error = None, arrived = [0x01, 0x03, 0x02],
      buffered = [], buffered_later = []\<rparr>) = [''ec'' \<mapsto> PyNone, ''ph'' \<mapsto> PyNone]"
proof -
  let ?c = "(init \<lparr>has_pyserial = True, comports = Inr [], serial_open = Inr True,
            platform_system = ''Windows''\<rparr> (Some ''COM1'') 9600 1)"
  let ?l = "\<lparr>write_error = None, read_error = None, arrived = [0x01, 0x03, 0x02],
      buffered = [], buffered_later = []\<rparr>"
  let ?s = "\<lparr>is_open = True, read_timeout = 1\<rparr>"
  have c: "is_connected ?c" "serial_conn ?c = Some ?s" "is_open ?s"
    by (simp_all add: init_def connect_def)
  have l: "write_error ?l = None" "read_error ?l = None" "arrived ?l = [0x01, 0x03, 0x02]"
    by simp_all
  have n: "length (arrived ?l) < 7" "length (arrived ?l) < 11" "length (arrived ?l) < 13"
    by simp_all
  from short_read_returned_then_rejected [OF c l(1) l(2) n(1), of CMD_READ_N 1] l(3)
  have a: "send_and_receive ?c ?l CMD_READ_N (Some 7) None = (?c, Some [0x01, 0x03, 0x02])"
    "read_nitrogen 1 (on_line ?c ?l) = None" "read_phosphorus 1 (on_line ?c ?l) = None"
    "read_potassium 1 (on_line ?c ?l) = None" "read_ec 1 (on_line ?c ?l) = None"
    "read_ph 1 (on_line ?c ?l) = None"
    by simp_all
  from short_read_returned_then_rejected [OF c l(1) l(2) n(2), of CMD_READ_NPK 1]
  have b: "read_npk 1 (on_line ?c ?l) =
     [''nitrogen'' \<mapsto> PyNone, ''phosphorus'' \<mapsto> PyNone, ''potassium'' \<mapsto> PyNone]"
    by simp
  from short_read_returned_then_rejected [OF c l(1) l(2) n(3), of CMD_READ_EC_PH 1]
  have d: "read_ec_ph 1 (on_line ?c ?l) = [''ec'' \<mapsto> PyNone, ''ph'' \<mapsto> PyNone]"
    by simp
  from a b d show ?thesis by blast
qed

end
